theory Spec2Isabelle
  imports Main "HOL-Library.Word" "HOL-Library.Monad_Syntax"
begin

unbundle bit_operations_syntax

section \<open>Machine types of the Go source\<close>

type_synonym byte = "8 word"
type_synonym uint16 = "16 word"
type_synonym uint32 = "32 word"
type_synonym uint64 = "64 word"

text \<open>
  Go's \<open>int\<close> is a signed 64-bit integer on the platforms the service is built for.
  It is modelled as a HOL \<open>int\<close>; every addition the source performs on an \<open>int\<close>
  is wrapped by \<open>go_int\<close>, the two's-complement wrap-around.
\<close>

definition min_int :: int where
  "min_int = - (2 ^ 63)"

definition max_int :: int where
  "max_int = 2 ^ 63 - 1"

definition go_int :: "int \<Rightarrow> int" where
  "go_int x = (x + 2 ^ 63) mod 2 ^ 64 - 2 ^ 63"

text \<open>A slice is a list (its capacity is taken to be its length); \<open>len\<close> is Go's \<open>len\<close>.\<close>

definition len :: "'a list \<Rightarrow> int" where
  "len xs = int (length xs)"

text \<open>
  A run-time panic (index or slice bound out of range) is the value \<open>None\<close>; a call that
  returns normally is \<open>Some\<close> of the values it returns and of the memory it has written.
\<close>

definition load :: "'a list \<Rightarrow> int \<Rightarrow> 'a option" where
  "load xs i = (if 0 \<le> i \<and> i < len xs then Some (xs ! nat i) else None)"

definition store :: "'a list \<Rightarrow> int \<Rightarrow> 'a \<Rightarrow> 'a list option" where
  "store xs i v = (if 0 \<le> i \<and> i < len xs then Some (xs[nat i := v]) else None)"

text \<open>\<open>xs[i:]\<close> and \<open>xs[lo:hi]\<close>.\<close>

definition slice_from :: "'a list \<Rightarrow> int \<Rightarrow> 'a list option" where
  "slice_from xs i = (if 0 \<le> i \<and> i \<le> len xs then Some (drop (nat i) xs) else None)"

definition slice :: "'a list \<Rightarrow> int \<Rightarrow> int \<Rightarrow> 'a list option" where
  "slice xs lo hi =
     (if 0 \<le> lo \<and> lo \<le> hi \<and> hi \<le> len xs
      then Some (take (nat (hi - lo)) (drop (nat lo) xs)) else None)"

section \<open>encoding/binary, little endian\<close>

definition PutUint16 :: "byte list \<Rightarrow> uint16 \<Rightarrow> byte list option" where
  "PutUint16 b v =
     (if length b < 2 then None
      else Some (b[0 := ucast v, 1 := ucast (drop_bit 8 v)]))"

definition PutUint32 :: "byte list \<Rightarrow> uint32 \<Rightarrow> byte list option" where
  "PutUint32 b v =
     (if length b < 4 then None
      else Some (b[0 := ucast v, 1 := ucast (drop_bit 8 v),
                   2 := ucast (drop_bit 16 v), 3 := ucast (drop_bit 24 v)]))"

definition PutUint64 :: "byte list \<Rightarrow> uint64 \<Rightarrow> byte list option" where
  "PutUint64 b v =
     (if length b < 8 then None
      else Some (b[0 := ucast v, 1 := ucast (drop_bit 8 v),
                   2 := ucast (drop_bit 16 v), 3 := ucast (drop_bit 24 v),
                   4 := ucast (drop_bit 32 v), 5 := ucast (drop_bit 40 v),
                   6 := ucast (drop_bit 48 v), 7 := ucast (drop_bit 56 v)]))"

definition Uint16 :: "byte list \<Rightarrow> uint16 option" where
  "Uint16 b =
     (if length b < 2 then None
      else Some (ucast (b ! 0) OR push_bit 8 (ucast (b ! 1))))"

definition Uint32 :: "byte list \<Rightarrow> uint32 option" where
  "Uint32 b =
     (if length b < 4 then None
      else Some (ucast (b ! 0) OR push_bit 8 (ucast (b ! 1))
                 OR push_bit 16 (ucast (b ! 2)) OR push_bit 24 (ucast (b ! 3))))"

definition Uint64 :: "byte list \<Rightarrow> uint64 option" where
  "Uint64 b =
     (if length b < 8 then None
      else Some (ucast (b ! 0) OR push_bit 8 (ucast (b ! 1))
                 OR push_bit 16 (ucast (b ! 2)) OR push_bit 24 (ucast (b ! 3))
                 OR push_bit 32 (ucast (b ! 4)) OR push_bit 40 (ucast (b ! 5))
                 OR push_bit 48 (ucast (b ! 6)) OR push_bit 56 (ucast (b ! 7))))"

section \<open>Floating point values as bit patterns\<close>

text \<open>
  The source touches a float only through \<open>math.Float32bits\<close>, \<open>math.Float32frombits\<close>
  and their 64-bit counterparts, which map a float to its IEEE-754 bit pattern and back.
  A float is therefore modelled as the carrier of its bit pattern.
\<close>

datatype float32 = Float32frombits (Float32bits: uint32)

datatype float64 = Float64frombits (Float64bits: uint64)

section \<open>Write primitives\<close>

text \<open>Each write returns the buffer as written and the advanced cursor.\<close>

definition WriteBool :: "byte list \<Rightarrow> int \<Rightarrow> bool \<Rightarrow> (byte list \<times> int) option" where
  "WriteBool data index v = do {
     data' \<leftarrow> (if v then store data index 1 else store data index 0);
     Some (data', go_int (index + 1))
   }"

definition WriteUint8 :: "byte list \<Rightarrow> int \<Rightarrow> byte \<Rightarrow> (byte list \<times> int) option" where
  "WriteUint8 data index v = do {
     data' \<leftarrow> store data index v;
     Some (data', go_int (index + 1))
   }"

definition WriteUint16 :: "byte list \<Rightarrow> int \<Rightarrow> uint16 \<Rightarrow> (byte list \<times> int) option" where
  "WriteUint16 data index v = do {
     b \<leftarrow> slice_from data index;
     b' \<leftarrow> PutUint16 b v;
     Some (take (nat index) data @ b', go_int (index + 2))
   }"

definition WriteUint32 :: "byte list \<Rightarrow> int \<Rightarrow> uint32 \<Rightarrow> (byte list \<times> int) option" where
  "WriteUint32 data index v = do {
     b \<leftarrow> slice_from data index;
     b' \<leftarrow> PutUint32 b v;
     Some (take (nat index) data @ b', go_int (index + 4))
   }"

definition WriteUint64 :: "byte list \<Rightarrow> int \<Rightarrow> uint64 \<Rightarrow> (byte list \<times> int) option" where
  "WriteUint64 data index v = do {
     b \<leftarrow> slice_from data index;
     b' \<leftarrow> PutUint64 b v;
     Some (take (nat index) data @ b', go_int (index + 8))
   }"

definition WriteFloat32 :: "byte list \<Rightarrow> int \<Rightarrow> float32 \<Rightarrow> (byte list \<times> int) option" where
  "WriteFloat32 data index v = WriteUint32 data index (Float32bits v)"

definition WriteFloat64 :: "byte list \<Rightarrow> int \<Rightarrow> float64 \<Rightarrow> (byte list \<times> int) option" where
  "WriteFloat64 data index v = WriteUint64 data index (Float64bits v)"

section \<open>Read primitives\<close>

text \<open>
  Each read takes the buffer, the cursor and the current content of the output variable,
  and returns the boolean result, the cursor and the output variable after the call.
\<close>

definition ReadBool :: "byte list \<Rightarrow> int \<Rightarrow> bool \<Rightarrow> (bool \<times> int \<times> bool) option" where
  "ReadBool data index v =
     (if go_int (index + 1) > len data then Some (False, index, v)
      else do {
        b \<leftarrow> load data index;
        Some (True, go_int (index + 1), b > 0)
      })"

definition ReadUint8 :: "byte list \<Rightarrow> int \<Rightarrow> byte \<Rightarrow> (bool \<times> int \<times> byte) option" where
  "ReadUint8 data index v =
     (if go_int (index + 1) > len data then Some (False, index, v)
      else do {
        b \<leftarrow> load data index;
        Some (True, go_int (index + 1), b)
      })"

definition ReadUint16 :: "byte list \<Rightarrow> int \<Rightarrow> uint16 \<Rightarrow> (bool \<times> int \<times> uint16) option" where
  "ReadUint16 data index v =
     (if go_int (index + 2) > len data then Some (False, index, v)
      else do {
        b \<leftarrow> slice_from data index;
        x \<leftarrow> Uint16 b;
        Some (True, go_int (index + 2), x)
      })"

definition ReadUint32 :: "byte list \<Rightarrow> int \<Rightarrow> uint32 \<Rightarrow> (bool \<times> int \<times> uint32) option" where
  "ReadUint32 data index v =
     (if go_int (index + 4) > len data then Some (False, index, v)
      else do {
        b \<leftarrow> slice_from data index;
        x \<leftarrow> Uint32 b;
        Some (True, go_int (index + 4), x)
      })"

definition ReadUint64 :: "byte list \<Rightarrow> int \<Rightarrow> uint64 \<Rightarrow> (bool \<times> int \<times> uint64) option" where
  "ReadUint64 data index v =
     (if go_int (index + 8) > len data then Some (False, index, v)
      else do {
        b \<leftarrow> slice_from data index;
        x \<leftarrow> Uint64 b;
        Some (True, go_int (index + 8), x)
      })"

definition ReadFloat32 :: "byte list \<Rightarrow> int \<Rightarrow> float32 \<Rightarrow> (bool \<times> int \<times> float32) option" where
  "ReadFloat32 data index v = do {
     (ok, index', intValue) \<leftarrow> ReadUint32 data index 0;
     if \<not> ok then Some (False, index', v)
     else Some (True, index', Float32frombits intValue)
   }"

definition ReadFloat64 :: "byte list \<Rightarrow> int \<Rightarrow> float64 \<Rightarrow> (bool \<times> int \<times> float64) option" where
  "ReadFloat64 data index v = do {
     (ok, index', uintValue) \<leftarrow> ReadUint64 data index 0;
     if \<not> ok then Some (False, index', v)
     else Some (True, index', Float64frombits uintValue)
   }"

text \<open>
  The copy loop shared by \<open>ReadString\<close> and \<open>ReadBytes\<close>:
  \<open>for i := 0; i < n; i++ { dst[i] = data[*index]; *index++ }\<close>.
\<close>

function read_loop :: "byte list \<Rightarrow> int \<Rightarrow> byte list \<Rightarrow> nat \<Rightarrow> nat \<Rightarrow> (byte list \<times> int) option" where
  "read_loop data index dst i n =
     (if i < n then
        (case load data index of
           None \<Rightarrow> None
         | Some b \<Rightarrow>
             (case store dst (int i) b of
                None \<Rightarrow> None
              | Some dst' \<Rightarrow> read_loop data (go_int (index + 1)) dst' (Suc i) n))
      else Some (dst, index))"
  by pat_completeness auto
termination
  by (relation "measure (\<lambda>(data, index, dst, i, n). n - i)") auto

text \<open>A Go string is its byte sequence; \<open>string(stringData)\<close> copies the bytes.\<close>

definition ReadString :: "byte list \<Rightarrow> int \<Rightarrow> byte list \<Rightarrow> uint32 \<Rightarrow> (bool \<times> int \<times> byte list) option" where
  "ReadString data index v maxStringLength = do {
     (ok, index', stringLength) \<leftarrow> ReadUint32 data index 0;
     if \<not> ok then Some (False, index', v)
     else if stringLength > maxStringLength then Some (False, index', v)
     else if go_int (index' + uint stringLength) > len data then Some (False, index', v)
     else do {
       (stringData, index'') \<leftarrow>
          read_loop data index' (replicate (unat stringLength) 0) 0 (unat stringLength);
       Some (True, index'', stringData)
     }
   }"

definition ReadBytes :: "byte list \<Rightarrow> int \<Rightarrow> byte list \<Rightarrow> uint32 \<Rightarrow> (bool \<times> int \<times> byte list) option" where
  "ReadBytes data index v bytes =
     (if go_int (index + uint bytes) > len data then Some (False, index, v)
      else do {
        (v', index') \<leftarrow> read_loop data index (replicate (unat bytes) 0) 0 (unat bytes);
        Some (True, index', v')
      })"

section \<open>Addresses\<close>

definition IPAddressNone :: byte where
  "IPAddressNone = 0"

definition IPAddressIPv4 :: byte where
  "IPAddressIPv4 = 1"

definition IPAddressIPv6 :: byte where
  "IPAddressIPv6 = 2"

definition AddressSize :: int where
  "AddressSize = 19"

text \<open>\<open>net.UDPAddr\<close>, with \<open>net.IP\<close> a byte slice; a nil pointer is \<open>None\<close>.\<close>

record UDPAddr =
  IP :: "byte list"
  Port :: int

text \<open>
  The functions of Go's package \<open>net\<close> that the codec calls. \<open>net.IPv4\<close> builds the
  16-byte IPv4-in-IPv6 form; \<open>IP.To4\<close> returns the 4 address bytes of a 4-byte IP or of a
  16-byte IP with the IPv4-in-IPv6 prefix, and nil (\<open>None\<close>) otherwise; \<open>IP.Equal\<close>
  compares two IPs, taking a 4-byte IP and its 16-byte form as equal.
\<close>

definition v4InV6Prefix :: "byte list" where
  "v4InV6Prefix = [0, 0, 0, 0, 0, 0, 0, 0, 0, 0, 0xff, 0xff]"

definition IPv4 :: "byte \<Rightarrow> byte \<Rightarrow> byte \<Rightarrow> byte \<Rightarrow> byte list" where
  "IPv4 a b c d = v4InV6Prefix @ [a, b, c, d]"

definition To4 :: "byte list \<Rightarrow> byte list option" where
  "To4 ip =
     (if length ip = 4 then Some ip
      else if length ip = 16 \<and> take 12 ip = v4InV6Prefix then Some (drop 12 ip)
      else None)"

definition IP_Equal :: "byte list \<Rightarrow> byte list \<Rightarrow> bool" where
  "IP_Equal ip x =
     (if length ip = length x then ip = x
      else if length ip = 4 \<and> length x = 16 then take 12 x = v4InV6Prefix \<and> ip = drop 12 x
      else if length ip = 16 \<and> length x = 4 then take 12 ip = v4InV6Prefix \<and> drop 12 ip = x
      else False)"

text \<open>The builtin \<open>copy(dst, src)\<close>: the destination after the call.\<close>

definition copy :: "'a list \<Rightarrow> 'a list \<Rightarrow> 'a list" where
  "copy dst src =
     (let n = min (length dst) (length src) in take n src @ drop n dst)"

definition WriteAddress :: "byte list \<Rightarrow> UDPAddr option \<Rightarrow> byte list option" where
  "WriteAddress buffer address =
     (case address of
        None \<Rightarrow> store buffer 0 IPAddressNone
      | Some addr \<Rightarrow>
          (let ipv4 = To4 (IP addr); port = Port addr in
           case ipv4 of
             Some ip4 \<Rightarrow> do {
               buffer \<leftarrow> store buffer 0 IPAddressIPv4;
               x \<leftarrow> load ip4 0;
               buffer \<leftarrow> store buffer 1 x;
               x \<leftarrow> load ip4 1;
               buffer \<leftarrow> store buffer 2 x;
               x \<leftarrow> load ip4 2;
               buffer \<leftarrow> store buffer 3 x;
               x \<leftarrow> load ip4 3;
               buffer \<leftarrow> store buffer 4 x;
               buffer \<leftarrow> store buffer 5 (word_of_int (port AND 0xFF));
               buffer \<leftarrow> store buffer 6 (word_of_int (drop_bit 8 port));
               Some buffer
             }
           | None \<Rightarrow> do {
               buffer \<leftarrow> store buffer 0 IPAddressIPv6;
               dst \<leftarrow> slice_from buffer 1;
               buffer \<leftarrow> Some (take 1 buffer @ copy dst (IP addr));
               buffer \<leftarrow> store buffer 17 (word_of_int (port AND 0xFF));
               buffer \<leftarrow> store buffer 18 (word_of_int (drop_bit 8 port));
               Some buffer
             }))"

text \<open>The result is \<open>None\<close> on a panic, \<open>Some None\<close> for a nil address.\<close>

definition ReadAddress :: "byte list \<Rightarrow> UDPAddr option option" where
  "ReadAddress buffer = do {
     addressType \<leftarrow> load buffer 0;
     if addressType = IPAddressIPv4 then do {
       b1 \<leftarrow> load buffer 1;
       b2 \<leftarrow> load buffer 2;
       b3 \<leftarrow> load buffer 3;
       b4 \<leftarrow> load buffer 4;
       s \<leftarrow> slice_from buffer 5;
       p \<leftarrow> Uint16 s;
       Some (Some \<lparr>IP = IPv4 b1 b2 b3 b4, Port = uint p\<rparr>)
     }
     else if addressType = IPAddressIPv6 then do {
       ip \<leftarrow> slice_from buffer 1;
       s \<leftarrow> slice_from buffer 17;
       p \<leftarrow> Uint16 s;
       Some (Some \<lparr>IP = ip, Port = uint p\<rparr>)
     }
     else Some None
   }"

text \<open>
  The placeholder of the source: it assigns the two output variables and leaves the
  \<open>addressData\<close> buffer alone. The result is the buffer, \<open>*addressPort\<close> and
  \<open>*addressBytes\<close> after the call.
\<close>

definition GetAddressData ::
    "UDPAddr option \<Rightarrow> byte list \<Rightarrow> uint16 \<Rightarrow> int \<Rightarrow> byte list \<times> uint16 \<times> int" where
  "GetAddressData address addressData addressPort addressBytes = (addressData, 0, 0)"

section \<open>Packet tags\<close>

text \<open>Go's \<open>hash/fnv\<close>, 64-bit FNV-1a: the state is the running hash.\<close>

definition offset64 :: uint64 where
  "offset64 = 14695981039346656037"

definition prime64 :: uint64 where
  "prime64 = 1099511628211"

definition New64a :: uint64 where
  "New64a = offset64"

fun fnv_Write :: "uint64 \<Rightarrow> byte list \<Rightarrow> uint64" where
  "fnv_Write hash [] = hash"
| "fnv_Write hash (c # cs) = fnv_Write ((hash XOR ucast c) * prime64) cs"

definition Sum64 :: "uint64 \<Rightarrow> uint64" where
  "Sum64 hash = hash"

text \<open>
  The loop \<open>for i := 0; i < len(a); i++ { sum += uint16(a[i]) }\<close>. The variable
  \<open>sum\<close> of the source is \<open>sum16\<close> below.
\<close>

fun sum_loop :: "uint16 \<Rightarrow> byte list \<Rightarrow> uint16" where
  "sum_loop s [] = s"
| "sum_loop s (x # xs) = sum_loop (s + ucast x) xs"

definition GeneratePittle ::
    "byte list \<Rightarrow> byte list \<Rightarrow> uint16 \<Rightarrow> byte list \<Rightarrow> uint16 \<Rightarrow> int \<Rightarrow> byte list option" where
  "GeneratePittle output fromAddress fromPort toAddress toPort packetLength = do {
     fromPortData \<leftarrow> PutUint16 [0, 0] fromPort;
     toPortData \<leftarrow> PutUint16 [0, 0] toPort;
     packetLengthData \<leftarrow> PutUint32 [0, 0, 0, 0] (word_of_int packetLength);
     let sum16 = 0;
     let sum16 = sum_loop sum16 fromAddress;
     let sum16 = sum16 + ucast (fromPortData ! 0);
     let sum16 = sum16 + ucast (fromPortData ! 1);
     let sum16 = sum_loop sum16 toAddress;
     let sum16 = sum16 + ucast (toPortData ! 0);
     let sum16 = sum16 + ucast (toPortData ! 1);
     let sum16 = sum16 + ucast (packetLengthData ! 0);
     let sum16 = sum16 + ucast (packetLengthData ! 1);
     let sum16 = sum16 + ucast (packetLengthData ! 2);
     let sum16 = sum16 + ucast (packetLengthData ! 3);
     sumData \<leftarrow> PutUint16 [0, 0] sum16;
     output \<leftarrow> store output 0 (1 OR (sumData ! 0 XOR sumData ! 1 XOR 193));
     o0 \<leftarrow> load output 0;
     output \<leftarrow> store output 1 (1 OR ((255 - o0) XOR 113));
     Some output
   }"

definition GenerateChonkle ::
    "byte list \<Rightarrow> byte list \<Rightarrow> byte list \<Rightarrow> uint16 \<Rightarrow> byte list \<Rightarrow> uint16 \<Rightarrow> int
      \<Rightarrow> byte list option" where
  "GenerateChonkle output magic fromAddressData fromPort toAddressData toPort packetLength = do {
     fromPortData \<leftarrow> PutUint16 [0, 0] fromPort;
     toPortData \<leftarrow> PutUint16 [0, 0] toPort;
     packetLengthData \<leftarrow> PutUint32 [0, 0, 0, 0] (word_of_int packetLength);
     let hash = New64a;
     let hash = fnv_Write hash magic;
     let hash = fnv_Write hash fromAddressData;
     let hash = fnv_Write hash fromPortData;
     let hash = fnv_Write hash toAddressData;
     let hash = fnv_Write hash toPortData;
     let hash = fnv_Write hash packetLengthData;
     let hashValue = Sum64 hash;
     data \<leftarrow> PutUint64 [0, 0, 0, 0, 0, 0, 0, 0] hashValue;
     output \<leftarrow> store output 0 (drop_bit 6 (data ! 6 AND 0xC0) + 42);
     output \<leftarrow> store output 1 ((data ! 3 AND 0x1F) + 200);
     output \<leftarrow> store output 2 (drop_bit 2 (data ! 2 AND 0xFC) + 5);
     output \<leftarrow> store output 3 (data ! 0);
     output \<leftarrow> store output 4 ((data ! 2 AND 0x03) + 78);
     output \<leftarrow> store output 5 ((data ! 4 AND 0x7F) + 96);
     output \<leftarrow> store output 6 (drop_bit 2 (data ! 1 AND 0xFC) + 100);
     output \<leftarrow> (if data ! 7 AND 1 = 0 then store output 7 79 else store output 7 7);
     output \<leftarrow> (if data ! 4 AND 0x80 = 0 then store output 8 37 else store output 8 83);
     output \<leftarrow> store output 9 ((data ! 5 AND 0x07) + 124);
     output \<leftarrow> store output 10 (drop_bit 5 (data ! 1 AND 0xE0) + 175);
     output \<leftarrow> store output 11 ((data ! 6 AND 0x3F) + 33);
     let v = data ! 1 AND 0x03;
     output \<leftarrow> (if v = 0 then store output 12 97
                else if v = 1 then store output 12 5
                else if v = 2 then store output 12 43
                else store output 12 13);
     output \<leftarrow> store output 13 (drop_bit 3 (data ! 5 AND 0xF8) + 210);
     output \<leftarrow> store output 14 (drop_bit 1 (data ! 7 AND 0xFE) + 17);
     Some output
   }"

section \<open>Packet filters\<close>

definition BasicPacketFilter :: "byte list \<Rightarrow> int \<Rightarrow> bool option" where
  "BasicPacketFilter data packetLength =
     (if packetLength < 18 then Some False else
      do { d \<leftarrow> load data 0; if d < 0x01 \<or> d > 0x63 then Some False else
      do { d \<leftarrow> load data 1; if d < 0x2A \<or> d > 0x2D then Some False else
      do { d \<leftarrow> load data 2; if d < 0xC8 \<or> d > 0xE7 then Some False else
      do { d \<leftarrow> load data 3; if d < 0x05 \<or> d > 0x44 then Some False else
      do { d \<leftarrow> load data 5; if d < 0x4E \<or> d > 0x51 then Some False else
      do { d \<leftarrow> load data 6; if d < 0x60 \<or> d > 0xDF then Some False else
      do { d \<leftarrow> load data 7; if d < 0x64 \<or> d > 0xE3 then Some False else
      do { d \<leftarrow> load data 8; if d \<noteq> 0x07 \<and> d \<noteq> 0x4F then Some False else
      do { d \<leftarrow> load data 9; if d \<noteq> 0x25 \<and> d \<noteq> 0x53 then Some False else
      do { d \<leftarrow> load data 10; if d < 0x7C \<or> d > 0x83 then Some False else
      do { d \<leftarrow> load data 11; if d < 0xAF \<or> d > 0xB6 then Some False else
      do { d \<leftarrow> load data 12; if d < 0x21 \<or> d > 0x60 then Some False else
      do { d \<leftarrow> load data 13;
           if d \<noteq> 0x61 \<and> d \<noteq> 0x05 \<and> d \<noteq> 0x2B \<and> d \<noteq> 0x0D then Some False else
      do { d \<leftarrow> load data 14; if d < 0xD2 \<or> d > 0xF1 then Some False else
      do { d \<leftarrow> load data 15; if d < 0x11 \<or> d > 0x90 then Some False else
      Some True }}}}}}}}}}}}}}})"

text \<open>\<open>bytes.Compare\<close>: the lexicographic comparison of two byte slices, as \<open>-1\<close>, \<open>0\<close> or \<open>1\<close>.\<close>

fun bytes_Compare :: "byte list \<Rightarrow> byte list \<Rightarrow> int" where
  "bytes_Compare [] [] = 0"
| "bytes_Compare [] (y # ys) = - 1"
| "bytes_Compare (x # xs) [] = 1"
| "bytes_Compare (x # xs) (y # ys) =
     (if x < y then - 1 else if y < x then 1 else bytes_Compare xs ys)"

definition AdvancedPacketFilter ::
    "byte list \<Rightarrow> byte list \<Rightarrow> byte list \<Rightarrow> uint16 \<Rightarrow> byte list \<Rightarrow> uint16 \<Rightarrow> int
      \<Rightarrow> bool option" where
  "AdvancedPacketFilter data magic fromAddress fromPort toAddress toPort packetLength =
     (if packetLength < 18 then Some False
      else do {
        a \<leftarrow> GenerateChonkle (replicate 15 0) magic fromAddress fromPort toAddress toPort
               packetLength;
        b \<leftarrow> GeneratePittle (replicate 2 0) fromAddress fromPort toAddress toPort packetLength;
        a' \<leftarrow> slice a 0 15;
        d \<leftarrow> slice data 1 16;
        if bytes_Compare a' d \<noteq> 0 then Some False
        else do {
          b' \<leftarrow> slice b 0 2;
          e \<leftarrow> slice data (go_int (packetLength - 2)) packetLength;
          if bytes_Compare b' e \<noteq> 0 then Some False else Some True
        }
      })"

section \<open>Little-endian encoding and decoding are inverse\<close>

lemma go_int_id: "min_int \<le> x \<Longrightarrow> x \<le> max_int \<Longrightarrow> go_int x = x"
  by (simp add: go_int_def min_int_def max_int_def)

lemma Uint16_bytes:
  "ucast (ucast v :: byte) OR push_bit 8 (ucast (ucast (drop_bit 8 v) :: byte)) = (v :: uint16)"
  (is "?l = v")
proof (rule bit_word_eqI)
  fix n assume "n < LENGTH(16)"
  then consider "n < 8" | "8 \<le> n" "n < 16" by fastforce
  then show "bit ?l n = bit v n"
    by cases (auto simp add: bit_simps)
qed

lemma Uint32_bytes:
  "ucast (ucast v :: byte) OR push_bit 8 (ucast (ucast (drop_bit 8 v) :: byte))
   OR push_bit 16 (ucast (ucast (drop_bit 16 v) :: byte))
   OR push_bit 24 (ucast (ucast (drop_bit 24 v) :: byte)) = (v :: uint32)"
  (is "?l = v")
proof (rule bit_word_eqI)
  fix n assume "n < LENGTH(32)"
  then consider "n < 8" | "8 \<le> n" "n < 16" | "16 \<le> n" "n < 24" | "24 \<le> n" "n < 32"
    by fastforce
  then show "bit ?l n = bit v n"
    by cases (auto simp add: bit_simps)
qed

lemma Uint64_bytes:
  "ucast (ucast v :: byte) OR push_bit 8 (ucast (ucast (drop_bit 8 v) :: byte))
   OR push_bit 16 (ucast (ucast (drop_bit 16 v) :: byte))
   OR push_bit 24 (ucast (ucast (drop_bit 24 v) :: byte))
   OR push_bit 32 (ucast (ucast (drop_bit 32 v) :: byte))
   OR push_bit 40 (ucast (ucast (drop_bit 40 v) :: byte))
   OR push_bit 48 (ucast (ucast (drop_bit 48 v) :: byte))
   OR push_bit 56 (ucast (ucast (drop_bit 56 v) :: byte)) = (v :: uint64)"
  (is "?l = v")
proof (rule bit_word_eqI)
  fix n assume "n < LENGTH(64)"
  then consider "n < 8" | "8 \<le> n" "n < 16" | "16 \<le> n" "n < 24" | "24 \<le> n" "n < 32"
    | "32 \<le> n" "n < 40" | "40 \<le> n" "n < 48" | "48 \<le> n" "n < 56" | "56 \<le> n" "n < 64"
    by fastforce
  then show "bit ?l n = bit v n"
    by cases (auto simp add: bit_simps)
qed

lemma upd2: "2 \<le> length b \<Longrightarrow> b[0 := a0, Suc 0 := a1] = a0 # a1 # drop 2 b"
proof -
  assume "2 \<le> length b"
  then obtain x y r where "b = x # y # r"
    by (metis Suc_le_length_iff numeral_2_eq_2)
  then show ?thesis by (simp add: numeral_2_eq_2)
qed

lemma upd4:
  "4 \<le> length b \<Longrightarrow> b[0 := a0, Suc 0 := a1, 2 := a2, 3 := a3] = a0 # a1 # a2 # a3 # drop 4 b"
  by (rule nth_equalityI) (auto simp: nth_list_update nth_Cons')

lemma upd8:
  "8 \<le> length b \<Longrightarrow>
   b[0 := a0, Suc 0 := a1, 2 := a2, 3 := a3, 4 := a4, 5 := a5, 6 := a6, 7 := a7]
     = a0 # a1 # a2 # a3 # a4 # a5 # a6 # a7 # drop 8 b"
  by (rule nth_equalityI) (auto simp: nth_list_update nth_Cons')

lemma PutUint16_Uint16: "PutUint16 b v = Some b' \<Longrightarrow> Uint16 b' = Some v \<and> length b' = length b"
  by (cases "2 \<le> length b") (auto simp: PutUint16_def Uint16_def upd2 Uint16_bytes)

lemma PutUint32_Uint32: "PutUint32 b v = Some b' \<Longrightarrow> Uint32 b' = Some v \<and> length b' = length b"
  by (cases "4 \<le> length b") (auto simp: PutUint32_def Uint32_def upd4 Uint32_bytes)

lemma PutUint64_Uint64: "PutUint64 b v = Some b' \<Longrightarrow> Uint64 b' = Some v \<and> length b' = length b"
  by (cases "8 \<le> length b") (auto simp: PutUint64_def Uint64_def upd8 Uint64_bytes)

section \<open>Scalar round trip\<close>

lemma go_int_small: "0 \<le> x \<Longrightarrow> x \<le> max_int \<Longrightarrow> go_int x = x"
  by (rule go_int_id) (simp_all add: min_int_def)

lemma slice_from_written:
  "0 \<le> p \<Longrightarrow> p \<le> len data \<Longrightarrow> slice_from (take (nat p) data @ b') p = Some b'"
  by (auto simp: slice_from_def len_def min_def)

lemma WriteUint16_ReadUint16:
  assumes "0 \<le> p" "p + 2 \<le> len data" "len data \<le> max_int"
  shows "\<exists>data'. WriteUint16 data p v = Some (data', p + 2) \<and> length data' = length data
           \<and> ReadUint16 data' p v0 = Some (True, p + 2, v)"
proof -
  let ?b = "drop (nat p) data"
  have sl: "slice_from data p = Some ?b" using assms by (simp add: slice_from_def)
  have "2 \<le> length ?b" using assms by (simp add: len_def)
  then obtain b' where put: "PutUint16 ?b v = Some b'" by (auto simp: PutUint16_def)
  from PutUint16_Uint16 [OF put] have rd: "Uint16 b' = Some v" and lb: "length b' = length ?b" by auto
  have gi: "go_int (p + 2) = p + 2" using assms by (intro go_int_small) auto
  let ?d = "take (nat p) data @ b'"
  have ld: "length ?d = length data" using assms lb by (simp add: len_def)
  have w: "WriteUint16 data p v = Some (?d, p + 2)" by (simp add: WriteUint16_def sl put gi)
  have sl': "slice_from ?d p = Some b'" using assms by (intro slice_from_written) auto
  have r: "ReadUint16 ?d p v0 = Some (True, p + 2, v)"
    using assms ld by (simp add: ReadUint16_def gi len_def sl' rd)
  from w ld r show ?thesis by blast
qed

lemma WriteUint32_ReadUint32:
  assumes "0 \<le> p" "p + 4 \<le> len data" "len data \<le> max_int"
  shows "\<exists>data'. WriteUint32 data p v = Some (data', p + 4) \<and> length data' = length data
           \<and> ReadUint32 data' p v0 = Some (True, p + 4, v)"
proof -
  let ?b = "drop (nat p) data"
  have sl: "slice_from data p = Some ?b" using assms by (simp add: slice_from_def)
  have "4 \<le> length ?b" using assms by (simp add: len_def)
  then obtain b' where put: "PutUint32 ?b v = Some b'" by (auto simp: PutUint32_def)
  from PutUint32_Uint32 [OF put] have rd: "Uint32 b' = Some v" and lb: "length b' = length ?b" by auto
  have gi: "go_int (p + 4) = p + 4" using assms by (intro go_int_small) auto
  let ?d = "take (nat p) data @ b'"
  have ld: "length ?d = length data" using assms lb by (simp add: len_def)
  have w: "WriteUint32 data p v = Some (?d, p + 4)" by (simp add: WriteUint32_def sl put gi)
  have sl': "slice_from ?d p = Some b'" using assms by (intro slice_from_written) auto
  have r: "ReadUint32 ?d p v0 = Some (True, p + 4, v)"
    using assms ld by (simp add: ReadUint32_def gi len_def sl' rd)
  from w ld r show ?thesis by blast
qed

lemma WriteUint64_ReadUint64:
  assumes "0 \<le> p" "p + 8 \<le> len data" "len data \<le> max_int"
  shows "\<exists>data'. WriteUint64 data p v = Some (data', p + 8) \<and> length data' = length data
           \<and> ReadUint64 data' p v0 = Some (True, p + 8, v)"
proof -
  let ?b = "drop (nat p) data"
  have sl: "slice_from data p = Some ?b" using assms by (simp add: slice_from_def)
  have "8 \<le> length ?b" using assms by (simp add: len_def)
  then obtain b' where put: "PutUint64 ?b v = Some b'" by (auto simp: PutUint64_def)
  from PutUint64_Uint64 [OF put] have rd: "Uint64 b' = Some v" and lb: "length b' = length ?b" by auto
  have gi: "go_int (p + 8) = p + 8" using assms by (intro go_int_small) auto
  let ?d = "take (nat p) data @ b'"
  have ld: "length ?d = length data" using assms lb by (simp add: len_def)
  have w: "WriteUint64 data p v = Some (?d, p + 8)" by (simp add: WriteUint64_def sl put gi)
  have sl': "slice_from ?d p = Some b'" using assms by (intro slice_from_written) auto
  have r: "ReadUint64 ?d p v0 = Some (True, p + 8, v)"
    using assms ld by (simp add: ReadUint64_def gi len_def sl' rd)
  from w ld r show ?thesis by blast
qed

lemma WriteUint8_ReadUint8:
  assumes "0 \<le> p" "p + 1 \<le> len data" "len data \<le> max_int"
  shows "\<exists>data'. WriteUint8 data p v = Some (data', p + 1) \<and> length data' = length data
           \<and> ReadUint8 data' p v0 = Some (True, p + 1, v)"
proof -
  have gi: "go_int (p + 1) = p + 1" using assms by (intro go_int_small) auto
  show ?thesis
    using assms by (simp add: WriteUint8_def ReadUint8_def store_def load_def gi len_def)
qed

lemma WriteBool_ReadBool:
  assumes "0 \<le> p" "p + 1 \<le> len data" "len data \<le> max_int"
  shows "\<exists>data'. WriteBool data p v = Some (data', p + 1) \<and> length data' = length data
           \<and> ReadBool data' p v0 = Some (True, p + 1, v)"
proof -
  have gi: "go_int (p + 1) = p + 1" using assms by (intro go_int_small) auto
  show ?thesis
    using assms by (simp add: WriteBool_def ReadBool_def store_def load_def gi len_def)
qed

lemma WriteFloat32_ReadFloat32:
  assumes "0 \<le> p" "p + 4 \<le> len data" "len data \<le> max_int"
  shows "\<exists>data'. WriteFloat32 data p v = Some (data', p + 4) \<and> length data' = length data
           \<and> ReadFloat32 data' p v0 = Some (True, p + 4, v)"
  using WriteUint32_ReadUint32 [OF assms, of "Float32bits v" 0]
  by (auto simp: WriteFloat32_def ReadFloat32_def)

lemma WriteFloat64_ReadFloat64:
  assumes "0 \<le> p" "p + 8 \<le> len data" "len data \<le> max_int"
  shows "\<exists>data'. WriteFloat64 data p v = Some (data', p + 8) \<and> length data' = length data
           \<and> ReadFloat64 data' p v0 = Some (True, p + 8, v)"
  using WriteUint64_ReadUint64 [OF assms, of "Float64bits v" 0]
  by (auto simp: WriteFloat64_def ReadFloat64_def)

text \<open>
  Claim C8. For every scalar value and every cursor position \<open>p\<close> with room for it
  (\<open>0 \<le> p\<close> and \<open>p + sizeof(T) \<le> len(data)\<close>, the buffer being a Go slice, so no longer
  than the largest \<open>int\<close>), writing the value at \<open>p\<close> succeeds and leaves the cursor at
  \<open>p + sizeof(T)\<close>, and reading the same type at \<open>p\<close> from the written buffer succeeds, yields
  the value and leaves the cursor at \<open>p + sizeof(T)\<close>, whatever the output variable held. A
  float is written as its bit pattern by the unsigned writer of the same width, so every
  bit pattern (signed zeros, infinities, NaN payloads) comes back unchanged.
\<close>

theorem scalar_write_read_round_trip:
  assumes "0 \<le> p" and "len data \<le> max_int"
  shows "(p + 1 \<le> len data \<longrightarrow>
            (\<exists>data'. WriteBool data p b = Some (data', p + 1)
               \<and> ReadBool data' p b0 = Some (True, p + 1, b)))
       \<and> (p + 1 \<le> len data \<longrightarrow>
            (\<exists>data'. WriteUint8 data p v8 = Some (data', p + 1)
               \<and> ReadUint8 data' p w8 = Some (True, p + 1, v8)))
       \<and> (p + 2 \<le> len data \<longrightarrow>
            (\<exists>data'. WriteUint16 data p v16 = Some (data', p + 2)
               \<and> ReadUint16 data' p w16 = Some (True, p + 2, v16)))
       \<and> (p + 4 \<le> len data \<longrightarrow>
            (\<exists>data'. WriteUint32 data p v32 = Some (data', p + 4)
               \<and> ReadUint32 data' p w32 = Some (True, p + 4, v32)))
       \<and> (p + 8 \<le> len data \<longrightarrow>
            (\<exists>data'. WriteUint64 data p v64 = Some (data', p + 8)
               \<and> ReadUint64 data' p w64 = Some (True, p + 8, v64)))
       \<and> (p + 4 \<le> len data \<longrightarrow>
            (\<exists>data'. WriteFloat32 data p f32 = Some (data', p + 4)
               \<and> ReadFloat32 data' p g32 = Some (True, p + 4, f32)))
       \<and> (p + 8 \<le> len data \<longrightarrow>
            (\<exists>data'. WriteFloat64 data p f64 = Some (data', p + 8)
               \<and> ReadFloat64 data' p g64 = Some (True, p + 8, f64)))
       \<and> WriteFloat32 data p f32 = WriteUint32 data p (Float32bits f32)
       \<and> WriteFloat64 data p f64 = WriteUint64 data p (Float64bits f64)"
proof -
  have "p + 1 \<le> len data \<longrightarrow>
          (\<exists>data'. WriteBool data p b = Some (data', p + 1)
             \<and> ReadBool data' p b0 = Some (True, p + 1, b))"
    using WriteBool_ReadBool [of p data b b0] assms by blast
  moreover have "p + 1 \<le> len data \<longrightarrow>
          (\<exists>data'. WriteUint8 data p v8 = Some (data', p + 1)
             \<and> ReadUint8 data' p w8 = Some (True, p + 1, v8))"
    using WriteUint8_ReadUint8 [of p data v8 w8] assms by blast
  moreover have "p + 2 \<le> len data \<longrightarrow>
          (\<exists>data'. WriteUint16 data p v16 = Some (data', p + 2)
             \<and> ReadUint16 data' p w16 = Some (True, p + 2, v16))"
    using WriteUint16_ReadUint16 [of p data v16 w16] assms by blast
  moreover have "p + 4 \<le> len data \<longrightarrow>
          (\<exists>data'. WriteUint32 data p v32 = Some (data', p + 4)
             \<and> ReadUint32 data' p w32 = Some (True, p + 4, v32))"
    using WriteUint32_ReadUint32 [of p data v32 w32] assms by blast
  moreover have "p + 8 \<le> len data \<longrightarrow>
          (\<exists>data'. WriteUint64 data p v64 = Some (data', p + 8)
             \<and> ReadUint64 data' p w64 = Some (True, p + 8, v64))"
    using WriteUint64_ReadUint64 [of p data v64 w64] assms by blast
  moreover have "p + 4 \<le> len data \<longrightarrow>
          (\<exists>data'. WriteFloat32 data p f32 = Some (data', p + 4)
             \<and> ReadFloat32 data' p g32 = Some (True, p + 4, f32))"
    using WriteFloat32_ReadFloat32 [of p data f32 g32] assms by blast
  moreover have "p + 8 \<le> len data \<longrightarrow>
          (\<exists>data'. WriteFloat64 data p f64 = Some (data', p + 8)
             \<and> ReadFloat64 data' p g64 = Some (True, p + 8, f64))"
    using WriteFloat64_ReadFloat64 [of p data f64 g64] assms by blast
  moreover have "WriteFloat32 data p f32 = WriteUint32 data p (Float32bits f32)"
    by (simp add: WriteFloat32_def)
  moreover have "WriteFloat64 data p f64 = WriteUint64 data p (Float64bits f64)"
    by (simp add: WriteFloat64_def)
  ultimately show ?thesis by blast
qed

text \<open>
  The round trip at cursor 1 of a 9-byte buffer: there is room for every scalar type; the
  float written is the NaN with bit pattern \<open>0x7FC00001\<close>.
\<close>

theorem scalar_write_read_round_trip_witness:
  "(0::int) \<le> 1 \<and> len (replicate 9 (0::byte)) \<le> max_int
   \<and> 1 + 8 \<le> len (replicate 9 (0::byte))
   \<and> (\<exists>data'. WriteBool (replicate 9 0) 1 True = Some (data', 1 + 1)
          \<and> ReadBool data' 1 False = Some (True, 1 + 1, True))
   \<and> (\<exists>data'. WriteUint64 (replicate 9 0) 1 0x0102030405060708 = Some (data', 1 + 8)
          \<and> ReadUint64 data' 1 0 = Some (True, 1 + 8, 0x0102030405060708))
   \<and> (\<exists>data'. WriteFloat32 (replicate 9 0) 1 (Float32frombits 0x7FC00001) = Some (data', 1 + 4)
          \<and> ReadFloat32 data' 1 (Float32frombits 0) = Some (True, 1 + 4, Float32frombits 0x7FC00001))"
proof -
  have h1: "(0::int) \<le> 1" by simp
  have h2: "len (replicate 9 (0::byte)) \<le> max_int" by (simp add: len_def max_int_def)
  have h3: "1 + 8 \<le> len (replicate 9 (0::byte))" by (simp add: len_def)
  have h4: "1 + 4 \<le> len (replicate 9 (0::byte))" by (simp add: len_def)
  have h5: "1 + 1 \<le> len (replicate 9 (0::byte))" by (simp add: len_def)
  from scalar_write_read_round_trip [OF h1 h2, of True False _ _ _ _ _ _ "0x0102030405060708" 0
      "Float32frombits 0x7FC00001" "Float32frombits 0"] h1 h2 h3 h4 h5
  show ?thesis by blast
qed

section \<open>Reads that fail\<close>

lemma ReadBool_false: "ReadBool data index v = Some (False, i', v') \<Longrightarrow> i' = index \<and> v' = v"
  by (auto simp: ReadBool_def split: if_splits bind_splits)

lemma ReadUint8_false: "ReadUint8 data index v = Some (False, i', v') \<Longrightarrow> i' = index \<and> v' = v"
  by (auto simp: ReadUint8_def split: if_splits bind_splits)

lemma ReadUint16_false: "ReadUint16 data index v = Some (False, i', v') \<Longrightarrow> i' = index \<and> v' = v"
  by (auto simp: ReadUint16_def split: if_splits bind_splits)

lemma ReadUint32_false: "ReadUint32 data index v = Some (False, i', v') \<Longrightarrow> i' = index \<and> v' = v"
  by (auto simp: ReadUint32_def split: if_splits bind_splits)

lemma ReadUint64_false: "ReadUint64 data index v = Some (False, i', v') \<Longrightarrow> i' = index \<and> v' = v"
  by (auto simp: ReadUint64_def split: if_splits bind_splits)

lemma ReadUint32_true:
  "ReadUint32 data index v = Some (True, i', v') \<Longrightarrow> i' = go_int (index + 4) \<and> \<not> len data < go_int (index + 4)"
  by (auto simp: ReadUint32_def split: if_splits bind_splits)

lemma ReadFloat32_false: "ReadFloat32 data index v = Some (False, i', v') \<Longrightarrow> i' = index \<and> v' = v"
  by (auto simp: ReadFloat32_def split: if_splits bind_splits dest: ReadUint32_false)

lemma ReadFloat64_false: "ReadFloat64 data index v = Some (False, i', v') \<Longrightarrow> i' = index \<and> v' = v"
  by (auto simp: ReadFloat64_def split: if_splits bind_splits dest: ReadUint64_false)

lemma ReadBytes_false: "ReadBytes data index v n = Some (False, i', v') \<Longrightarrow> i' = index \<and> v' = v"
  by (auto simp: ReadBytes_def split: if_splits bind_splits)

lemma ReadUint32_result:
  "ReadUint32 data index v = Some (ok, i', x) \<Longrightarrow>
     ok = (\<not> len data < go_int (index + 4)) \<and> i' = (if ok then go_int (index + 4) else index)"
  by (auto simp: ReadUint32_def split: if_splits bind_splits)

lemma ReadString_false:
  assumes "ReadString data index v m = Some (False, i', v')"
  shows "v' = v \<and> i' = (if len data < go_int (index + 4) then index else go_int (index + 4))"
proof -
  from assms obtain ok i1 n where r: "ReadUint32 data index 0 = Some (ok, i1, n)"
    by (auto simp: ReadString_def split: bind_splits)
  from ReadUint32_result [OF r]
  have ok: "ok = (\<not> len data < go_int (index + 4))"
    and i1: "i1 = (if ok then go_int (index + 4) else index)" by simp_all
  from assms r have "v' = v \<and> i' = i1"
    by (auto simp: ReadString_def split: if_splits bind_splits)
  with ok i1 show ?thesis by simp
qed

lemma ReadBool_false_iff: "ReadBool data index v = Some (False, index, v) \<longleftrightarrow> len data < go_int (index + 1)"
  by (auto simp: ReadBool_def split: if_splits bind_splits)
lemma ReadUint8_false_iff: "ReadUint8 data index v = Some (False, index, v) \<longleftrightarrow> len data < go_int (index + 1)"
  by (auto simp: ReadUint8_def split: if_splits bind_splits)
lemma ReadUint16_false_iff: "ReadUint16 data index v = Some (False, index, v) \<longleftrightarrow> len data < go_int (index + 2)"
  by (auto simp: ReadUint16_def split: if_splits bind_splits)
lemma ReadUint32_false_iff: "ReadUint32 data index v = Some (False, index, v) \<longleftrightarrow> len data < go_int (index + 4)"
  by (auto simp: ReadUint32_def split: if_splits bind_splits)
lemma ReadUint64_false_iff: "ReadUint64 data index v = Some (False, index, v) \<longleftrightarrow> len data < go_int (index + 8)"
  by (auto simp: ReadUint64_def split: if_splits bind_splits)
lemma ReadFloat32_false_iff: "ReadFloat32 data index v = Some (False, index, v) \<longleftrightarrow> len data < go_int (index + 4)"
  by (auto simp: ReadFloat32_def ReadUint32_def split: if_splits bind_splits)
lemma ReadFloat64_false_iff: "ReadFloat64 data index v = Some (False, index, v) \<longleftrightarrow> len data < go_int (index + 8)"
  by (auto simp: ReadFloat64_def ReadUint64_def split: if_splits bind_splits)


text \<open>
  Claim C5, as the source has it. A read primitive that returns false leaves the output
  variable as it was. The cursor is left where it was by ReadBool, ReadUint8/16/32/64,
  ReadFloat32/64 and ReadBytes, and by ReadString when its buffer is too short for the
  4-byte length prefix; a ReadString that reads its length prefix and then returns false
  (declared length above the maximum or above the remaining bytes) leaves the cursor
  behind the prefix, 4 bytes further. A fixed-width read returns false exactly when
  \<open>cursor + sizeof(T)\<close>, computed in Go's 64-bit \<open>int\<close>, exceeds \<open>len(data)\<close>; no wrap-around
  occurs for a cursor from the least \<open>int\<close> up to the greatest \<open>int\<close> minus 8.
\<close>

theorem read_failure_state:
  "(ReadBool data index b = Some (False, i', b') \<longrightarrow> i' = index \<and> b' = b)
   \<and> (ReadUint8 data index v8 = Some (False, i', w8) \<longrightarrow> i' = index \<and> w8 = v8)
   \<and> (ReadUint16 data index v16 = Some (False, i', w16) \<longrightarrow> i' = index \<and> w16 = v16)
   \<and> (ReadUint32 data index v32 = Some (False, i', w32) \<longrightarrow> i' = index \<and> w32 = v32)
   \<and> (ReadUint64 data index v64 = Some (False, i', w64) \<longrightarrow> i' = index \<and> w64 = v64)
   \<and> (ReadFloat32 data index f32 = Some (False, i', g32) \<longrightarrow> i' = index \<and> g32 = f32)
   \<and> (ReadFloat64 data index f64 = Some (False, i', g64) \<longrightarrow> i' = index \<and> g64 = f64)
   \<and> (ReadBytes data index bs n = Some (False, i', bs') \<longrightarrow> i' = index \<and> bs' = bs)
   \<and> (ReadString data index str m = Some (False, i', str') \<longrightarrow>
         str' = str \<and> i' = (if len data < go_int (index + 4) then index else go_int (index + 4)))
   \<and> (ReadBool data index b = Some (False, index, b) \<longleftrightarrow> len data < go_int (index + 1))
   \<and> (ReadUint8 data index v8 = Some (False, index, v8) \<longleftrightarrow> len data < go_int (index + 1))
   \<and> (ReadUint16 data index v16 = Some (False, index, v16) \<longleftrightarrow> len data < go_int (index + 2))
   \<and> (ReadUint32 data index v32 = Some (False, index, v32) \<longleftrightarrow> len data < go_int (index + 4))
   \<and> (ReadUint64 data index v64 = Some (False, index, v64) \<longleftrightarrow> len data < go_int (index + 8))
   \<and> (ReadFloat32 data index f32 = Some (False, index, f32) \<longleftrightarrow> len data < go_int (index + 4))
   \<and> (ReadFloat64 data index f64 = Some (False, index, f64) \<longleftrightarrow> len data < go_int (index + 8))
   \<and> (min_int \<le> index \<and> index + 8 \<le> max_int \<longrightarrow>
         go_int (index + 1) = index + 1 \<and> go_int (index + 2) = index + 2
         \<and> go_int (index + 4) = index + 4 \<and> go_int (index + 8) = index + 8)"
proof -
  have "min_int \<le> index \<and> index + 8 \<le> max_int \<longrightarrow>
         go_int (index + 1) = index + 1 \<and> go_int (index + 2) = index + 2
         \<and> go_int (index + 4) = index + 4 \<and> go_int (index + 8) = index + 8"
    by (simp add: go_int_id)
  moreover note ReadBool_false [of data index b i' b'] ReadUint8_false [of data index v8 i' w8]
    ReadUint16_false [of data index v16 i' w16] ReadUint32_false [of data index v32 i' w32]
    ReadUint64_false [of data index v64 i' w64] ReadFloat32_false [of data index f32 i' g32]
    ReadFloat64_false [of data index f64 i' g64] ReadBytes_false [of data index bs n i' bs']
    ReadString_false [of data index str m i' str']
    ReadBool_false_iff [of data index b] ReadUint8_false_iff [of data index v8]
    ReadUint16_false_iff [of data index v16] ReadUint32_false_iff [of data index v32]
    ReadUint64_false_iff [of data index v64] ReadFloat32_false_iff [of data index f32]
    ReadFloat64_false_iff [of data index f64]
  ultimately show ?thesis by blast
qed

text \<open>
  Failing reads: every primitive on the empty buffer at cursor 0, and ReadString on a
  buffer holding only the length prefix 5, with maximum length 3.
\<close>

theorem read_failure_state_witness:
  "ReadBool [] 0 True = Some (False, 0, True)
   \<and> ReadUint8 [] 0 7 = Some (False, 0, 7)
   \<and> ReadUint16 [] 0 7 = Some (False, 0, 7)
   \<and> ReadUint32 [] 0 7 = Some (False, 0, 7)
   \<and> ReadUint64 [] 0 7 = Some (False, 0, 7)
   \<and> ReadFloat32 [] 0 (Float32frombits 7) = Some (False, 0, Float32frombits 7)
   \<and> ReadFloat64 [] 0 (Float64frombits 7) = Some (False, 0, Float64frombits 7)
   \<and> ReadBytes [] 0 [7] 1 = Some (False, 0, [7])
   \<and> ReadString [] 0 [7] 3 = Some (False, 0, [7])
   \<and> ReadString [5, 0, 0, 0] 0 [7] 3 = Some (False, go_int (0 + 4), [7])
   \<and> min_int \<le> 0 \<and> 0 + 8 \<le> max_int \<and> go_int (0 + 4) = 0 + 4"
proof -
  have e: "ReadBool [] 0 True = Some (False, 0, True)" "ReadUint8 [] 0 7 = Some (False, 0, 7)"
    "ReadUint16 [] 0 7 = Some (False, 0, 7)" "ReadUint32 [] 0 7 = Some (False, 0, 7)"
    "ReadUint64 [] 0 7 = Some (False, 0, 7)"
    "ReadFloat32 [] 0 (Float32frombits 7) = Some (False, 0, Float32frombits 7)"
    "ReadFloat64 [] 0 (Float64frombits 7) = Some (False, 0, Float64frombits 7)"
    "ReadBytes [] 0 [7] 1 = Some (False, 0, [7])"
    "ReadString [] 0 [7] 3 = Some (False, 0, [7])"
    by (simp_all add: ReadBool_def ReadUint8_def ReadUint16_def ReadUint32_def ReadUint64_def
        ReadFloat32_def ReadFloat64_def ReadBytes_def ReadString_def go_int_def len_def)
  have s: "ReadString [5, 0, 0, 0] 0 [7] 3 = Some (False, 4, [7])"
    by (simp add: ReadString_def ReadUint32_def go_int_def len_def slice_from_def Uint32_def)
  have r: "min_int \<le> 0 \<and> 0 + 8 \<le> max_int" by (simp add: min_int_def max_int_def)
  have l: "\<not> len [5, 0, 0, 0 :: byte] < go_int (0 + 4)" by (simp add: go_int_def len_def)
  from read_failure_state [of "[]" 0 True 0 True 7 7 7 7 7 7 7 7 "Float32frombits 7"
      "Float32frombits 7" "Float64frombits 7" "Float64frombits 7" "[7]" 1 "[7]" "[7]" 3 "[7]"] e
  have "go_int (0 + 4) = 0 + 4" using r by blast
  moreover from read_failure_state [of "[5, 0, 0, 0]" 0 _ 4 _ _ _ _ _ _ _ _ _ _ _ _ _ _ _ _
      "[7]" 3 "[7]"] s l
  have "ReadString [5, 0, 0, 0] 0 [7] 3 = Some (False, go_int (0 + 4), [7])" by simp
  ultimately show ?thesis using e r by blast
qed

text \<open>
  Against claim C5 as stated. ReadString on the four bytes \<open>05 00 00 00\<close> with maximum
  length 3 reads the declared length 5, returns false, and leaves the cursor at 4, not at
  0. And at cursor \<open>2^63 - 4\<close> on the empty buffer, \<open>cursor + 4\<close> exceeds the length, but the sum
  wraps around in Go's \<open>int\<close>: ReadUint32 does not return false, the slice expression
  panics.
\<close>

theorem ReadString_failure_advances_cursor:
  "ReadString [5, 0, 0, 0] 0 [] 3 = Some (False, 4, [])
   \<and> ReadUint32 [] (2 ^ 63 - 4) 0 = None"
  by (simp add: ReadString_def ReadUint32_def go_int_def len_def slice_from_def Uint32_def)

section \<open>The address-data placeholder\<close>

text \<open>
  Claim C9. For every address (nil, IPv4 or IPv6, any bytes, any port) and whatever the
  output variables held before, GetAddressData sets the port to 0 and the byte count to 0
  and leaves the addressData buffer as it was.
\<close>

theorem GetAddressData_empty:
  "GetAddressData address addressData addressPort addressBytes = (addressData, 0, 0)"
  by (simp add: GetAddressData_def)

end
